theory Spec2Isabelle
  imports Main "HOL-Library.Sublist" "HOL-Library.AList"
begin

chapter \<open>ERI form-filling automation: a shallow embedding\<close>

text \<open>
  The development models the workflow automation of the repository: the input parser
  and the result extractor of \<^verbatim>\<open>V0.py\<close> and \<^verbatim>\<open>V2.py\<close>, the step sequencer and the batch
  runner of \<^verbatim>\<open>V2.py\<close>, and the session helper \<^verbatim>\<open>erieri_login_selenium2.py\<close>.

  Python strings are modelled as \<^typ>\<open>string\<close>, one \<^typ>\<open>char\<close> per code point below 256.
  \<^term>\<open>sublist xs ys\<close> is Python's \<^verbatim>\<open>xs in ys\<close> on strings, \<^term>\<open>suffix xs ys\<close> is
  \<^verbatim>\<open>ys.endswith(xs)\<close>. An attribute that may hold \<^verbatim>\<open>None\<close> is an \<^typ>\<open>string option\<close>.
  The browser is not part of the program: what it answers is an input of the model.
\<close>

section \<open>Python strings and integers\<close>

text \<open>\<^verbatim>\<open>str.isspace\<close> for one character (code points below 256).\<close>

definition isspace :: "char \<Rightarrow> bool" where
  "isspace c = (c \<in> set [CHR 0x09, CHR 0x0A, CHR 0x0B, CHR 0x0C, CHR 0x0D, CHR 0x1C, CHR 0x1D,
                         CHR 0x1E, CHR 0x1F, CHR '' '', CHR 0x85, CHR 0xA0])"

definition lstrip :: "string \<Rightarrow> string" where
  "lstrip s = dropWhile isspace s"

definition rstrip :: "string \<Rightarrow> string" where
  "rstrip s = rev (dropWhile isspace (rev s))"

text \<open>\<^verbatim>\<open>s.strip()\<close>\<close>

definition strip :: "string \<Rightarrow> string" where
  "strip s = rstrip (lstrip s)"

text \<open>\<^verbatim>\<open>s.lower()\<close>: the upper-case letters below 256 are A-Z and 0xC0-0xDE without 0xD7.\<close>

definition lower_char :: "char \<Rightarrow> char" where
  "lower_char c =
     (let n = (of_char c :: int)
      in if (65 \<le> n \<and> n \<le> 90) \<or> (192 \<le> n \<and> n \<le> 222 \<and> n \<noteq> 215) then char_of (n + 32) else c)"

definition lower :: "string \<Rightarrow> string" where
  "lower s = map lower_char s"

text \<open>\<^verbatim>\<open>x or default\<close> for an attribute that holds a string or \<^verbatim>\<open>None\<close>.\<close>

definition str_or :: "string option \<Rightarrow> string \<Rightarrow> string" where
  "str_or x d = (case x of None \<Rightarrow> d | Some s \<Rightarrow> if s = [] then d else s)"

definition isdigit :: "char \<Rightarrow> bool" where
  "isdigit c = (c \<in> set ''0123456789'')"

definition digit_value :: "char \<Rightarrow> int" where
  "digit_value c = of_char c - 48"

text \<open>
  \<^verbatim>\<open>int(s)\<close> for a string: surrounding white space is dropped, one sign is allowed, then
  decimal digits, single underscores only between digits. \<^verbatim>\<open>None\<close> stands for
  \<^verbatim>\<open>ValueError\<close>. CPython refuses more than 4300 digits.
\<close>

fun int_digits :: "string \<Rightarrow> int \<Rightarrow> int option" where
  "int_digits [] acc = Some acc"
| "int_digits (c # cs) acc =
     (if isdigit c then int_digits cs (10 * acc + digit_value c)
      else if c = CHR ''_'' \<and> cs \<noteq> [] \<and> isdigit (hd cs) then int_digits cs acc
      else None)"

definition int_unsigned :: "string \<Rightarrow> int option" where
  "int_unsigned s =
     (case s of
        [] \<Rightarrow> None
      | c # cs \<Rightarrow>
          if isdigit c \<and> length (filter isdigit s) \<le> 4300 then int_digits s 0 else None)"

definition py_int :: "string \<Rightarrow> int option" where
  "py_int s =
     (case strip s of
        [] \<Rightarrow> None
      | c # cs \<Rightarrow>
          if c = CHR ''-'' then map_option uminus (int_unsigned cs)
          else if c = CHR ''+'' then int_unsigned cs
          else int_unsigned (c # cs))"

text \<open>\<^verbatim>\<open>str(n)\<close> for an integer.\<close>

function digits_str :: "int \<Rightarrow> string" where
  "digits_str n =
     (if n < 10 then [char_of (48 + n)] else digits_str (n div 10) @ [char_of (48 + n mod 10)])"
  by pat_completeness auto
termination
  by (relation "measure nat") auto

definition py_str :: "int \<Rightarrow> string" where
  "py_str n = (if n < 0 then CHR ''-'' # digits_str (- n) else digits_str n)"

text \<open>\<^verbatim>\<open>f"{n:,}"\<close>: the decimal digits in groups of three.\<close>

fun commas_rev :: "string \<Rightarrow> string" where
  "commas_rev (a # b # c # d # rest) = a # b # c # CHR '','' # commas_rev (d # rest)"
| "commas_rev xs = xs"

definition format_commas :: "int \<Rightarrow> string" where
  "format_commas n = (if n < 0 then ''-'' else []) @ rev (commas_rev (rev (digits_str \<bar>n\<bar>)))"

section \<open>The input record and its parser\<close>

text \<open>
  The input attributes of \<^verbatim>\<open>ERICompleteAutomation\<close>; \<^verbatim>\<open>__init__\<close> sets each to
  \<^verbatim>\<open>None\<close>.
\<close>

record fields =
  eri_code :: "string option"
  location :: "string option"
  revenue :: "string option"
  industry :: "string option"
  years_experience :: "string option"
  data_type :: "string option"

definition init_fields :: fields where
  "init_fields = \<lparr>eri_code = None, location = None, revenue = None, industry = None,
                  years_experience = None, data_type = None\<rparr>"





















section \<open>The results view and the extractor\<close>

text \<open>
  What \<^verbatim>\<open>driver.find_element(By.XPATH, ...).text\<close> gives for one element of the results
  view: its text, \<^verbatim>\<open>NoSuchElementException\<close>, or another exception of the driver.
  \<^term>\<open>summary\<close> is the element of the All Incumbent Average, \<^term>\<open>cell pg r c\<close> the
  element \<^verbatim>\<open>tr[r]/td[c]\<close> of the results table.
\<close>

datatype cell_read = Text string | NoSuchElement | WebDriverError

record page =
  summary :: cell_read
  cell :: "nat \<Rightarrow> nat \<Rightarrow> cell_read"

text \<open>A results table given by its rows: a cell that is not there is not found.\<close>

definition table_cell :: "string list list \<Rightarrow> nat \<Rightarrow> nat \<Rightarrow> cell_read" where
  "table_cell rows r c =
     (if 1 \<le> r \<and> r \<le> length rows \<and> 1 \<le> c \<and> c \<le> length (rows ! (r - 1))
      then Text (rows ! (r - 1) ! (c - 1)) else NoSuchElement)"

definition table_page :: "string list list \<Rightarrow> page" where
  "table_page rows = \<lparr>summary = NoSuchElement, cell = table_cell rows\<rparr>"

text \<open>
  The row loop \<^verbatim>\<open>for row_num in range(1, 20)\<close> of both versions, started with the result
  \<^verbatim>\<open>"Not found"\<close>. A missing key cell ends the loop, any other exception goes on with the
  next row, as does a matching row whose value cannot be read. \<^term>\<open>col\<close> is the column
  chosen for the statistic, \<^term>\<open>None\<close> where choosing it raises.
\<close>

fun scan_rows :: "page \<Rightarrow> nat option \<Rightarrow> string \<Rightarrow> nat list \<Rightarrow> string" where
  "scan_rows pg col target [] = ''Not found''"
| "scan_rows pg col target (row_num # rest) =
     (case cell pg row_num 1 of
        NoSuchElement \<Rightarrow> ''Not found''
      | WebDriverError \<Rightarrow> scan_rows pg col target rest
      | Text years_text \<Rightarrow>
          if strip years_text = target then
            (case col of
               None \<Rightarrow> scan_rows pg col target rest
             | Some k \<Rightarrow>
                 (case cell pg row_num k of
                    Text v \<Rightarrow> strip v
                  | NoSuchElement \<Rightarrow> scan_rows pg col target rest
                  | WebDriverError \<Rightarrow> scan_rows pg col target rest))
          else scan_rows pg col target rest)"

text \<open>The column of \<^verbatim>\<open>V0.py\<close>; \<^verbatim>\<open>None.lower()\<close> raises.\<close>

definition column_V0 :: "string option \<Rightarrow> nat option" where
  "column_V0 dt =
     (case dt of
        None \<Rightarrow> None
      | Some s \<Rightarrow>
          Some (if lower s = ''mean'' then 4
                else if sublist ''75th'' (lower s) \<or> sublist ''percentile'' (lower s) then 5
                else 4))"

text \<open>The column of \<^verbatim>\<open>V2.py\<close>; with any other statistic \<^verbatim>\<open>data_xpath\<close> is unbound.\<close>

definition column_V2 :: "string option \<Rightarrow> nat option" where
  "column_V2 dt =
     (if dt = Some ''Mean'' then Some 4
      else if dt = Some ''75th Percentile'' then Some 5
      else None)"

text \<open>The dictionary \<^verbatim>\<open>extract_years_experience_data\<close> returns in \<^verbatim>\<open>V0.py\<close>.\<close>

record data_V0 =
  o_eri_code :: "string option"
  o_location :: "string option"
  o_industry :: "string option"
  o_revenue :: "string option"
  o_years_experience :: "string option"
  o_data_type :: "string option"
  all_incumbent_average :: string
  mean_value :: string
  o_timestamp :: string

text \<open>
  \<^verbatim>\<open>extract_years_experience_data\<close> of \<^verbatim>\<open>V0.py\<close>. \<^term>\<open>None\<close> is the \<^verbatim>\<open>return None\<close> of
  its \<^verbatim>\<open>except\<close> branch, reached when \<^verbatim>\<open>int(self.years_experience)\<close> raises.
\<close>

definition extract_years_experience_data_V0 :: "fields \<Rightarrow> page \<Rightarrow> string \<Rightarrow> data_V0 option" where
  "extract_years_experience_data_V0 self pg now =
     (let all_incumbent_value = (case summary pg of Text t \<Rightarrow> strip t | _ \<Rightarrow> ''Not found'')
      in case years_experience self of
           None \<Rightarrow> None
         | Some y \<Rightarrow>
             (case py_int y of
                None \<Rightarrow> None
              | Some target_years \<Rightarrow>
                  Some \<lparr>o_eri_code = eri_code self, o_location = location self,
                        o_industry = industry self, o_revenue = revenue self,
                        o_years_experience = years_experience self,
                        o_data_type = data_type self,
                        all_incumbent_average = all_incumbent_value,
                        mean_value =
                          scan_rows pg (column_V0 (data_type self)) (py_str target_years) [1..<20],
                        o_timestamp = now\<rparr>))"

text \<open>The dictionary \<^verbatim>\<open>extract_years_experience_data\<close> returns in \<^verbatim>\<open>V2.py\<close>.\<close>

record data_V2 =
  d_eri_code :: "string option"
  d_location :: "string option"
  d_industry :: "string option"
  d_revenue :: "string option"
  d_years_experience :: string
  d_data_type :: "string option"
  extracted_value :: string
  d_timestamp :: string

definition result_V2 :: "fields \<Rightarrow> string \<Rightarrow> string \<Rightarrow> string \<Rightarrow> data_V2" where
  "result_V2 self years result_value now =
     \<lparr>d_eri_code = eri_code self, d_location = location self, d_industry = industry self,
      d_revenue = revenue self, d_years_experience = years, d_data_type = data_type self,
      extracted_value = result_value, d_timestamp = now\<rparr>"

text \<open>
  \<^verbatim>\<open>extract_years_experience_data\<close> of \<^verbatim>\<open>V2.py\<close>. \<^term>\<open>None\<close> is the \<^verbatim>\<open>return None\<close> of
  its \<^verbatim>\<open>except\<close> branch, reached when \<^verbatim>\<open>int(self.years_experience)\<close> raises.
\<close>

definition extract_years_experience_data_V2 :: "fields \<Rightarrow> page \<Rightarrow> string \<Rightarrow> data_V2 option" where
  "extract_years_experience_data_V2 self pg now =
     (if data_type self = Some ''All Incumbent Average'' then
        Some (result_V2 self (str_or (years_experience self) ''N/A'')
                (case summary pg of Text t \<Rightarrow> strip t | _ \<Rightarrow> ''Not found'') now)
      else if data_type self = Some ''Mean'' \<or> data_type self = Some ''75th Percentile'' then
        (case years_experience self of
           None \<Rightarrow> Some (result_V2 self ''N/A'' ''Not found'' now)
         | Some y \<Rightarrow>
             (case py_int y of
                None \<Rightarrow> None
              | Some target_years \<Rightarrow>
                  Some (result_V2 self (str_or (years_experience self) ''N/A'')
                          (scan_rows pg (column_V2 (data_type self)) (py_str target_years) [1..<20])
                          now)))
      else Some (result_V2 self (str_or (years_experience self) ''N/A'') ''Not found'' now))"



text \<open>The results table of the spec's example, and a table whose only matching rows are
  rows 20 and 21.\<close>

definition example_table :: "string list list" where
  "example_table =
     [[''5'', ''100'', ''200'', ''300'', ''400''], [''11'', ''150'', ''260'', ''310'', ''420'']]"


definition example_record :: fields where
  "example_record =
     \<lparr>eri_code = Some ''4006'', location = Some ''Dallas, Texas'', revenue = Some ''565000000'',
      industry = Some ''All Industries - Diversified'', years_experience = Some ''11'',
      data_type = Some ''75th Percentile''\<rparr>"


section \<open>The step sequencer and the batch runner\<close>


text \<open>
  The interactions of \<^verbatim>\<open>V2.py\<close> with the browser, as the runs issue them:
  \<^verbatim>\<open>wait_and_click\<close>, \<^verbatim>\<open>dropdown_keyboard_selection\<close>, the inline code of step 5 (wait
  for the input, \<^verbatim>\<open>clear\<close>, \<^verbatim>\<open>send_keys\<close>) and of step 6 (click, or click by script),
  \<^verbatim>\<open>type_and_enter\<close>, and \<^verbatim>\<open>driver.execute_script\<close>. Each gives \<^verbatim>\<open>True\<close> or
  \<^verbatim>\<open>False\<close> and raises nothing past the run: every one stands under a \<^verbatim>\<open>try\<close> whose
  handler returns \<^verbatim>\<open>False\<close>.
\<close>

datatype interaction =
    WaitAndClick string
  | DropdownKeyboardSelection
  | ClearAndSendKeys string "string option"
  | ClickOrScriptClick string
  | TypeAndEnter string "string option"
  | ExecuteScript string

text \<open>The places of a run where the browser is driven, named as the code prints them.\<close>

datatype step =
  Reset | Step1 | Step2 | Step3 | Step4 | Step5 | Step6 | Step7 | Step8 | Step9
  | Preparation

text \<open>
  What the site does during the run of one record: whether the interaction of a step
  completes, the results view the extractor reads, and the time of the extraction. Every
  step is performed at most once in a run, so this fixes the run.
\<close>

record run_env =
  succeeds :: "step \<Rightarrow> bool"
  view :: page
  clock :: string

definition xpath1 :: string where
  "xpath1 = ''/html/body/div[1]/div[3]/div/div/div/div[1]/div[3]/a''"

definition xpath2 :: string where
  "xpath2 = ''/html/body/div[1]/div[3]/div[1]/div/div[1]/div/div/div[2]/div/div[2]/button''"

definition xpath3 :: string where
  "xpath3 = ''/html/body/div[59]/div/div[3]/table/tbody/tr/td[1]/div[2]/span/span''"

definition xpath5 :: string where
  "xpath5 = ''/html/body/div[59]/div/div[3]/table/tbody/tr/td[1]/div[1]/div[2]/input''"

definition xpath6 :: string where
  "xpath6 = ''/html/body/div[59]/div/div[4]/div/div[2]/button[2]''"

definition xpath7 :: string where
  "xpath7 = ''/html/body/div[1]/div[3]/div[1]/div/div[1]/div/div/div[36]/div[1]/div[1]/div[1]/div/input''"

definition xpath8 :: string where
  "xpath8 = ''/html/body/div[1]/div[3]/div[1]/div/div[1]/div/div/div[38]/div[2]/div[1]/input[2]''"

definition xpath9 :: string where
  "xpath9 = ''/html/body/div[1]/div[3]/div[1]/div/div[1]/div/div/div[40]/div[2]/div[1]/div[1]/input''"

definition scroll_to_top :: interaction where
  "scroll_to_top = ExecuteScript ''window.scrollTo(0, 0);''"

definition body_click :: interaction where
  "body_click = ExecuteScript ''document.body.click();''"

text \<open>
  \<^verbatim>\<open>f"{int(self.revenue):,}"\<close> of step 9 of the complete run; \<^term>\<open>None\<close> where
  \<^verbatim>\<open>int\<close> raises.
\<close>

definition formatted_revenue :: "fields \<Rightarrow> string option" where
  "formatted_revenue self =
     (case revenue self of None \<Rightarrow> None | Some s \<Rightarrow> map_option format_commas (py_int s))"

text \<open>
  The steps of \<^verbatim>\<open>run_complete_automation\<close> and of \<^verbatim>\<open>run_subsequent_automation\<close>, in the
  order of the code, each with the interaction it performs (\<^term>\<open>None\<close> where preparing
  it raises).
\<close>

definition complete_steps :: "fields \<Rightarrow> (step \<times> interaction option) list" where
  "complete_steps self =
     [(Step1, Some (WaitAndClick xpath1)),
      (Step2, Some (WaitAndClick xpath2)),
      (Step3, Some (WaitAndClick xpath3)),
      (Step4, Some DropdownKeyboardSelection),
      (Step5, Some (ClearAndSendKeys xpath5 (eri_code self))),
      (Step6, Some (ClickOrScriptClick xpath6)),
      (Step7, Some (TypeAndEnter xpath7 (location self))),
      (Step8, Some (TypeAndEnter xpath8 (industry self))),
      (Step9, map_option (\<lambda>v. TypeAndEnter xpath9 (Some v)) (formatted_revenue self))]"

definition subsequent_steps :: "fields \<Rightarrow> (step \<times> interaction option) list" where
  "subsequent_steps self =
     [(Step2, Some (WaitAndClick xpath2)),
      (Step3, Some (WaitAndClick xpath3)),
      (Step4, Some DropdownKeyboardSelection),
      (Step5, Some (ClearAndSendKeys xpath5 (eri_code self))),
      (Step6, Some (ClickOrScriptClick xpath6)),
      (Step7, Some (TypeAndEnter xpath7 (location self))),
      (Step8, Some (TypeAndEnter xpath8 (industry self))),
      (Step9, Some (TypeAndEnter xpath9 (revenue self)))]"

text \<open>
  The chain \<^verbatim>\<open>if not ...: return False\<close> of a run: the steps are performed in order, the
  first one that does not complete ends the run. The result is the value returned so far
  and the interactions performed.
\<close>

fun run_steps :: "run_env \<Rightarrow> (step \<times> interaction option) list \<Rightarrow> bool \<times> interaction list" where
  "run_steps env [] = (True, [])"
| "run_steps env ((s, None) # rest) = (False, [])"
| "run_steps env ((s, Some a) # rest) =
     (if succeeds env s
      then (case run_steps env rest of (ok, acts) \<Rightarrow> (ok, a # acts))
      else (False, [a]))"

text \<open>The attributes of \<^verbatim>\<open>ERICompleteAutomation\<close> the runs read and write.\<close>

record automation =
  inputs :: fields
  all_data :: "data_V2 list"

text \<open>
  \<^verbatim>\<open>run_complete_automation\<close>: the nine steps, the extraction, whose dictionary is
  appended to \<^verbatim>\<open>all_data\<close> when there is one, and the scroll to the top, under one
  \<^verbatim>\<open>try\<close>. The result is the value returned, the attributes, and the interactions
  performed.
\<close>

definition run_complete_automation ::
  "run_env \<Rightarrow> automation \<Rightarrow> bool \<times> automation \<times> interaction list" where
  "run_complete_automation env self =
     (case run_steps env (complete_steps (inputs self)) of
        (False, acts) \<Rightarrow> (False, self, acts)
      | (True, acts) \<Rightarrow>
          (let data = extract_years_experience_data_V2 (inputs self) (view env) (clock env);
               self' = (case data of None \<Rightarrow> self
                        | Some d \<Rightarrow> self\<lparr>all_data := all_data self @ [d]\<rparr>)
           in (succeeds env Preparation, self', acts @ [scroll_to_top])))"

text \<open>
  \<^verbatim>\<open>run_subsequent_automation\<close>: the attributes are set from the row, the page is reset
  (a scroll whose failure ends the run, a click on the body whose failure is passed over),
  then steps 2 to 9, the extraction and the scroll to the top.
\<close>

definition run_subsequent_automation ::
  "run_env \<Rightarrow> fields \<Rightarrow> automation \<Rightarrow> bool \<times> automation \<times> interaction list" where
  "run_subsequent_automation env row_data self0 =
     (let self = self0\<lparr>inputs := row_data\<rparr>
      in if \<not> succeeds env Reset then (False, self, [scroll_to_top])
         else
           (case run_steps env (subsequent_steps (inputs self)) of
              (False, acts) \<Rightarrow> (False, self, [scroll_to_top, body_click] @ acts)
            | (True, acts) \<Rightarrow>
                (case extract_years_experience_data_V2 (inputs self) (view env) (clock env) of
                   None \<Rightarrow> (False, self, [scroll_to_top, body_click] @ acts)
                 | Some d \<Rightarrow>
                     (succeeds env Preparation, self\<lparr>all_data := all_data self @ [d]\<rparr>,
                      [scroll_to_top, body_click] @ acts @ [scroll_to_top]))))"




text \<open>
  Notions used to state the properties of the runs: a step completes, all steps of a list
  complete, the interactions of a list of steps, the dictionary the extractor gives for a
  row, the dictionary a run appends to \<^verbatim>\<open>all_data\<close> (none when a step fails or the
  extractor returns \<^verbatim>\<open>None\<close>), and the list an optional dictionary adds.
\<close>

definition step_ok :: "run_env \<Rightarrow> step \<times> interaction option \<Rightarrow> bool" where
  "step_ok env sa = (snd sa \<noteq> None \<and> succeeds env (fst sa))"

definition steps_succeed :: "run_env \<Rightarrow> (step \<times> interaction option) list \<Rightarrow> bool" where
  "steps_succeed env steps = list_all (step_ok env) steps"

definition interactions :: "(step \<times> interaction option) list \<Rightarrow> interaction list" where
  "interactions steps = map (the \<circ> snd) steps"





definition bad_env :: "step \<Rightarrow> run_env" where
  "bad_env s = \<lparr>succeeds = (\<lambda>s'. s' \<noteq> s), view = table_page example_table, clock = ''t''\<rparr>"




section \<open>The session helper\<close>






















































chapter \<open>Properties\<close>

section \<open>Properties of the extractor\<close>










text \<open>
  Claim C10. For every input record whose statistic is neither "All Incumbent Average",
  "Mean" nor "75th Percentile", the extractor of \<^verbatim>\<open>V2.py\<close> returns an outcome whose
  extracted value is "Not found", and the outcome does not depend on the results view: no
  row of the table is read.
\<close>

theorem extract_V2_other_statistic:
  assumes "data_type self \<noteq> Some ''All Incumbent Average''"
    and "data_type self \<noteq> Some ''Mean''"
    and "data_type self \<noteq> Some ''75th Percentile''"
  shows "\<exists>d. extract_years_experience_data_V2 self pg now = Some d \<and>
             extracted_value d = ''Not found'' \<and>
             extract_years_experience_data_V2 self pg' now = Some d"
  using assms by (simp add: extract_years_experience_data_V2_def result_V2_def)

theorem extract_V2_other_statistic_witness:
  "data_type (example_record\<lparr>data_type := Some ''Median''\<rparr>) \<noteq> Some ''All Incumbent Average'' \<and>
   data_type (example_record\<lparr>data_type := Some ''Median''\<rparr>) \<noteq> Some ''Mean'' \<and>
   data_type (example_record\<lparr>data_type := Some ''Median''\<rparr>) \<noteq> Some ''75th Percentile'' \<and>
   map_option extracted_value
     (extract_years_experience_data_V2 (example_record\<lparr>data_type := Some ''Median''\<rparr>)
        (table_page example_table) ''t'') = Some ''Not found'' \<and>
   extract_years_experience_data_V2 (example_record\<lparr>data_type := Some ''Median''\<rparr>)
     (table_page example_table) ''t'' =
   extract_years_experience_data_V2 (example_record\<lparr>data_type := Some ''Median''\<rparr>)
     (table_page []) ''t''"
proof -
  let ?self = "example_record\<lparr>data_type := Some ''Median''\<rparr>"
  have a: "data_type ?self \<noteq> Some ''All Incumbent Average''"
    and b: "data_type ?self \<noteq> Some ''Mean''"
    and c: "data_type ?self \<noteq> Some ''75th Percentile''"
    by simp_all
  from extract_V2_other_statistic[OF a b c, of "table_page example_table" "''t''" "table_page []"]
  obtain d where
    "extract_years_experience_data_V2 ?self (table_page example_table) ''t'' = Some d"
    "extracted_value d = ''Not found''"
    "extract_years_experience_data_V2 ?self (table_page []) ''t'' = Some d"
    by blast
  with a b c show ?thesis by simp
qed








text \<open>
  Claim C4 at its failing inputs. With an empty \<^verbatim>\<open>years_experience\<close> and the statistic
  Mean, \<^verbatim>\<open>int('')\<close> raises inside \<^verbatim>\<open>V2.py\<close>'s extractor and the function returns
  \<^verbatim>\<open>None\<close>, no outcome with the value "Not found"; \<^verbatim>\<open>V0.py\<close> does so for an absent and
  for an empty \<^verbatim>\<open>years_experience\<close>, whatever the statistic.
\<close>

theorem extract_absent_years_returns_None:
  "extract_years_experience_data_V2
     (self\<lparr>years_experience := Some [], data_type := Some ''Mean''\<rparr>) pg now = None \<and>
   extract_years_experience_data_V0 (self\<lparr>years_experience := None\<rparr>) pg now = None \<and>
   extract_years_experience_data_V0 (self\<lparr>years_experience := Some []\<rparr>) pg now = None"
  by (simp add: extract_years_experience_data_V2_def extract_years_experience_data_V0_def
      py_int_def strip_def lstrip_def rstrip_def)

section \<open>Properties of the parser\<close>









































section \<open>Properties of the sequencer and the batch runner\<close>


lemma run_steps_abort:
  "steps_succeed env pre \<Longrightarrow> \<not> succeeds env s \<Longrightarrow>
   run_steps env (pre @ (s, Some a) # post) = (False, interactions pre @ [a])"
  by (induction env pre rule: run_steps.induct)
     (auto simp: steps_succeed_def step_ok_def interactions_def)


lemma run_steps_nonempty:
  "steps \<noteq> [] \<Longrightarrow> steps_succeed env [hd steps] \<Longrightarrow> snd (run_steps env steps) \<noteq> []"
  by (cases steps; cases "hd steps"; cases "snd (hd steps)")
     (auto simp: steps_succeed_def step_ok_def split: prod.splits)








lemma steps_shape:
  "map fst (subsequent_steps row) = tl (map fst (complete_steps row))"
  "take 7 (subsequent_steps row) = take 7 (tl (complete_steps row))"
  "length (complete_steps row) = 9" "length (subsequent_steps row) = 8"
  by (simp_all add: subsequent_steps_def complete_steps_def)




text \<open>
  Claim C9, as amended. A run ends at the first step that does not complete: it returns
  \<^verbatim>\<open>False\<close>, performs no later step and no extraction, and leaves \<^verbatim>\<open>all_data\<close> as it
  was. The run of a later record resets the page and then performs steps 2 to 9 of the
  complete run, in the same order, steps 2 to 8 with the same interactions: eight steps,
  the complete run without its first.
\<close>

theorem sequencer_aborts_at_first_failure:
  assumes "steps_succeed env pre" and "\<not> succeeds env s"
  shows "(complete_steps (inputs self) = pre @ (s, Some a) # post \<longrightarrow>
            run_complete_automation env self = (False, self, interactions pre @ [a])) \<and>
         (subsequent_steps row = pre @ (s, Some a) # post \<longrightarrow> succeeds env Reset \<longrightarrow>
            run_subsequent_automation env row self =
              (False, self\<lparr>inputs := row\<rparr>,
               [scroll_to_top, body_click] @ interactions pre @ [a])) \<and>
         map fst (subsequent_steps row) = tl (map fst (complete_steps row)) \<and>
         take 7 (subsequent_steps row) = take 7 (tl (complete_steps row)) \<and>
         length (complete_steps row) = 9 \<and> length (subsequent_steps row) = 8"
proof -
  have a: "run_steps env (pre @ (s, Some a) # post) = (False, interactions pre @ [a])"
    using assms by (rule run_steps_abort)
  have c: "complete_steps (inputs self) = pre @ (s, Some a) # post \<Longrightarrow>
      run_complete_automation env self = (False, self, interactions pre @ [a])"
    using a by (simp add: run_complete_automation_def)
  have b: "subsequent_steps row = pre @ (s, Some a) # post \<Longrightarrow> succeeds env Reset \<Longrightarrow>
      run_subsequent_automation env row self =
        (False, self\<lparr>inputs := row\<rparr>, [scroll_to_top, body_click] @ interactions pre @ [a])"
    using a by (simp add: run_subsequent_automation_def)
  show ?thesis using c b steps_shape[of row] by blast
qed

theorem sequencer_aborts_at_first_failure_witness:
  "steps_succeed (bad_env Step4) (take 3 (complete_steps example_record)) \<and>
   steps_succeed (bad_env Step4) (take 2 (subsequent_steps example_record)) \<and>
   \<not> succeeds (bad_env Step4) Step4 \<and> succeeds (bad_env Step4) Reset \<and>
   complete_steps example_record =
     take 3 (complete_steps example_record) @ (Step4, Some DropdownKeyboardSelection) #
     drop 4 (complete_steps example_record) \<and>
   subsequent_steps example_record =
     take 2 (subsequent_steps example_record) @ (Step4, Some DropdownKeyboardSelection) #
     drop 3 (subsequent_steps example_record) \<and>
   run_complete_automation (bad_env Step4) \<lparr>inputs = example_record, all_data = []\<rparr> =
     (False, \<lparr>inputs = example_record, all_data = []\<rparr>,
      [WaitAndClick xpath1, WaitAndClick xpath2, WaitAndClick xpath3,
       DropdownKeyboardSelection]) \<and>
   run_subsequent_automation (bad_env Step4) example_record \<lparr>inputs = init_fields, all_data = []\<rparr> =
     (False, \<lparr>inputs = example_record, all_data = []\<rparr>,
      [scroll_to_top, body_click, WaitAndClick xpath2, WaitAndClick xpath3,
       DropdownKeyboardSelection])"
proof -
  let ?env = "bad_env Step4"
  let ?self = "\<lparr>inputs = example_record, all_data = []\<rparr>"
  let ?start = "\<lparr>inputs = init_fields, all_data = []\<rparr>"
  have p1: "steps_succeed ?env (take 3 (complete_steps example_record))" by code_simp
  have p2: "steps_succeed ?env (take 2 (subsequent_steps example_record))" by code_simp
  have f: "\<not> succeeds ?env Step4" by code_simp
  have r: "succeeds ?env Reset" by code_simp
  have c: "complete_steps (inputs ?self) =
     take 3 (complete_steps example_record) @ (Step4, Some DropdownKeyboardSelection) #
     drop 4 (complete_steps example_record)"
    by (simp add: complete_steps_def)
  have s: "subsequent_steps example_record =
     take 2 (subsequent_steps example_record) @ (Step4, Some DropdownKeyboardSelection) #
     drop 3 (subsequent_steps example_record)"
    by (simp add: subsequent_steps_def)
  have i1: "interactions (take 3 (complete_steps example_record)) =
      [WaitAndClick xpath1, WaitAndClick xpath2, WaitAndClick xpath3]"
    by (simp add: complete_steps_def interactions_def)
  have i2: "interactions (take 2 (subsequent_steps example_record)) =
      [WaitAndClick xpath2, WaitAndClick xpath3]"
    by (simp add: subsequent_steps_def interactions_def)
  have u: "?start\<lparr>inputs := example_record\<rparr> = ?self" by simp
  from sequencer_aborts_at_first_failure[OF p1 f, of ?self DropdownKeyboardSelection
      "drop 4 (complete_steps example_record)" example_record]
  have A: "run_complete_automation ?env ?self =
      (False, ?self, interactions (take 3 (complete_steps example_record)) @
         [DropdownKeyboardSelection])"
    using c by blast
  from sequencer_aborts_at_first_failure[OF p2 f, of ?start DropdownKeyboardSelection
      "drop 3 (subsequent_steps example_record)" example_record]
  have B: "run_subsequent_automation ?env example_record ?start =
      (False, ?start\<lparr>inputs := example_record\<rparr>,
       [scroll_to_top, body_click] @ interactions (take 2 (subsequent_steps example_record)) @
         [DropdownKeyboardSelection])"
    using s r by blast
  show ?thesis
    using p1 p2 f r c s A B i1 i2 u by simp
qed

text \<open>
  The claim's count fails: the complete run has nine steps and the run of a later record
  eight, not seven. Step 9 also types the revenue as it is there, and with thousands
  separators in the complete run.
\<close>

theorem sequencer_aborts_at_first_failure_counterexample:
  "length (complete_steps example_record) = 9 \<and>
   length (subsequent_steps example_record) = 8 \<and>
   last (complete_steps example_record) =
     (Step9, Some (TypeAndEnter xpath9 (Some ''565,000,000''))) \<and>
   last (subsequent_steps example_record) =
     (Step9, Some (TypeAndEnter xpath9 (Some ''565000000'')))"
  by code_simp

section \<open>Properties of the session helper\<close>


























end
